theory Spec2Isabelle
  imports Main "HOL-Library.AList" "HOL-Library.Sublist"
begin

section \<open>Values, failures and the model router\<close>

text \<open>
  The service of \<^verbatim>\<open>app/services/llm_service.py\<close> sends a chat request to a completion
  provider, decodes the answer with the standard JSON decoder and returns one field of the
  decoded object. Python strings are modelled as \<^typ>\<open>string\<close>: the model's alphabet is the
  code points below 256.
\<close>

text \<open>
  A Python float. \<open>Decimal m e\<close> is the finite binary64 value nearest to \<open>m * 10 ^ e\<close>, the
  way the float of a decimal literal is computed; \<open>Infinity neg\<close> is \<^verbatim>\<open>inf\<close> or \<^verbatim>\<open>-inf\<close>, and
  \<open>NaN\<close> is \<^verbatim>\<open>nan\<close>.
\<close>

datatype pyfloat = Decimal int int | Infinity bool | NaN

text \<open>What \<^verbatim>\<open>json.loads\<close> returns: None, bool, int, float, str, list or dict (in insertion order).\<close>

datatype json =
    JNull
  | JBool bool
  | JInt int
  | JFloat pyfloat
  | JStr string
  | JList "json list"
  | JDict "(string \<times> json) list"

text \<open>
  Whether a float is \<open>0.0\<close>: a decimal literal rounds to zero exactly when its value is at
  most half the smallest subnormal, \<open>2 ^ -1075\<close> (the tie rounds to the even neighbour, zero).
\<close>

fun float_is_zero :: "pyfloat \<Rightarrow> bool" where
  "float_is_zero (Decimal m e) =
     (m = 0 \<or> (e < 0 \<and> \<bar>m\<bar> * 2 ^ 1075 \<le> 10 ^ nat (- e)))"
| "float_is_zero (Infinity neg) = False"
| "float_is_zero NaN = False"

text \<open>Python truth value of a decoded document, as tested by \<^verbatim>\<open>if not artists_list\<close>.\<close>

fun truthy :: "json \<Rightarrow> bool" where
  "truthy JNull = False"
| "truthy (JBool b) = b"
| "truthy (JInt i) = (i \<noteq> 0)"
| "truthy (JFloat f) = (\<not> float_is_zero f)"
| "truthy (JStr s) = (s \<noteq> [])"
| "truthy (JList xs) = (xs \<noteq> [])"
| "truthy (JDict kvs) = (kvs \<noteq> [])"

text \<open>
  The exceptions that leave the service. \<open>JSONDecodeError doc\<close> carries the document handed
  to the decoder (its \<^verbatim>\<open>doc\<close> attribute). \<open>ValueError msg\<close> is a plain \<^verbatim>\<open>ValueError\<close> with its
  message: the one of the \<^verbatim>\<open>raise ValueError(...)\<close> statements of the service, or the one
  the decoder raises for an integer literal with too many digits. \<open>AttributeError\<close> is
  raised by \<^verbatim>\<open>result.get\<close> on a decoded document that is not a dict, \<open>RecursionError\<close> by
  the decoder on a document nested too deep, and \<open>ProviderError\<close> stands for whatever the
  completion call itself raises.
\<close>

datatype error =
    JSONDecodeError string
  | ValueError string
  | AttributeError
  | RecursionError
  | ProviderError string

text \<open>
  What a call \<^verbatim>\<open>json.loads(content)\<close> does: it returns the decoded document, raises
  \<^verbatim>\<open>JSONDecodeError\<close> (with \<^verbatim>\<open>content\<close> as its \<^verbatim>\<open>doc\<close>), or raises another exception.
\<close>

datatype decoded =
    Decoded json
  | DecodeError
  | Raised error

text \<open>\<^verbatim>\<open>self.MODEL_MAPPING\<close>, set in \<^verbatim>\<open>__init__\<close>.\<close>

definition MODEL_MAPPING :: "(string \<times> string) list" where
  "MODEL_MAPPING =
     [(''gpt-4'', ''gpt-4''),
      (''claude'', ''anthropic/claude-3-5-sonnet-latest'')]"

text \<open>\<^verbatim>\<open>self.MODEL_MAPPING.get(model, model)\<close>.\<close>

definition resolve :: "string \<Rightarrow> string" where
  "resolve model = (case map_of MODEL_MAPPING model of Some model_id \<Rightarrow> model_id | None \<Rightarrow> model)"

text \<open>\<^verbatim>\<open>d.get(key, default)\<close> on a decoded dict.\<close>

definition dict_get :: "(string \<times> json) list \<Rightarrow> string \<Rightarrow> json \<Rightarrow> json" where
  "dict_get kvs key dflt = (case map_of kvs key of Some v \<Rightarrow> v | None \<Rightarrow> dflt)"

text \<open>
  \<^verbatim>\<open>str.isspace\<close> on the code points below 256, and \<^verbatim>\<open>str.strip()\<close> without arguments.
\<close>

definition isspace :: "char \<Rightarrow> bool" where
  "isspace c =
     (let n = (of_char c :: nat)
      in (9 \<le> n \<and> n \<le> 13) \<or> (28 \<le> n \<and> n \<le> 32) \<or> n = 133 \<or> n = 160)"

definition strip :: "string \<Rightarrow> string" where
  "strip s = rev (dropWhile isspace (rev (dropWhile isspace s)))"

section \<open>The JSON decoder\<close>

text \<open>
  \<^verbatim>\<open>json.loads\<close> belongs to the standard library, not to the service. The service
  functions below take the decoder as a parameter \<open>loads\<close>, a function from the text to
  what the call does with it. \<open>json_loads\<close> is a decoder to run them with: it follows the
  library's scanner (\<^verbatim>\<open>json/scanner.py\<close>, \<^verbatim>\<open>json/decoder.py\<close>) with its default
  settings, the interpreter's default limit of 4300 digits on an integer literal and its
  default recursion limit of 1000. Two things are outside the model. A code point above
  255 named by a \<^verbatim>\<open>\u\<close> escape is decoded as \<^verbatim>\<open>?\<close>. And the interpreter counts the frames
  of the callers against the recursion limit, so it gives up a few levels of nesting
  before \<open>json_loads\<close> does.
\<close>

text \<open>A scanner at a position of the text: a value and the text behind it, no match, or
  an exception other than the decode error.\<close>

datatype 'a scan =
    Scanned 'a string
  | Invalid
  | Raises error

definition INT_MAX_STR_DIGITS :: nat where
  "INT_MAX_STR_DIGITS = 4300"

definition recursion_limit :: nat where
  "recursion_limit = 1000"

text \<open>\<^verbatim>\<open>str(n)\<close> for a natural number.\<close>

function str_of_nat :: "nat \<Rightarrow> string" where
  "str_of_nat n =
     (if n < 10 then [char_of (48 + n)]
      else str_of_nat (n div 10) @ [char_of (48 + n mod 10)])"
  by pat_completeness auto
termination
  by (relation "measure id") auto

text \<open>The \<^verbatim>\<open>ValueError\<close> of \<^verbatim>\<open>int(integer)\<close> on a literal of \<open>n\<close> digits, more than the limit.\<close>

definition int_digits_error :: "nat \<Rightarrow> error" where
  "int_digits_error n =
     ValueError (''Exceeds the limit ('' @ str_of_nat INT_MAX_STR_DIGITS @
       '' digits) for integer string conversion: value has '' @ str_of_nat n @
       '' digits; use sys.set_int_max_str_digits() to increase the limit'')"

text \<open>
  \<^verbatim>\<open>float(literal)\<close> for the literal of value \<open>m * 10 ^ e\<close>: a value of at least
  \<open>2 ^ 1024 - 2 ^ 970\<close>, half way between the largest finite binary64 value and
  \<open>2 ^ 1024\<close>, rounds to infinity.
\<close>

definition float_of_literal :: "int \<Rightarrow> int \<Rightarrow> pyfloat" where
  "float_of_literal m e =
     (if (0 \<le> e \<and> 2 ^ 1024 - 2 ^ 970 \<le> \<bar>m\<bar> * 10 ^ nat e)
         \<or> (e < 0 \<and> (2 ^ 1024 - 2 ^ 970) * 10 ^ nat (- e) \<le> \<bar>m\<bar>)
      then Infinity (m < 0)
      else Decimal m e)"

definition is_digit :: "char \<Rightarrow> bool" where
  "is_digit c = (let n = (of_char c :: nat) in 48 \<le> n \<and> n \<le> 57)"

definition digits_value :: "string \<Rightarrow> nat" where
  "digits_value ds = foldl (\<lambda>acc c. 10 * acc + (of_char c - 48)) 0 ds"

definition hex_value :: "char \<Rightarrow> nat option" where
  "hex_value c =
     (let n = (of_char c :: nat)
      in if 48 \<le> n \<and> n \<le> 57 then Some (n - 48)
         else if 65 \<le> n \<and> n \<le> 70 then Some (n - 55)
         else if 97 \<le> n \<and> n \<le> 102 then Some (n - 87)
         else None)"

text \<open>\<^verbatim>\<open>WHITESPACE_STR = ' \t\n\r'\<close>.\<close>

definition json_ws :: "char \<Rightarrow> bool" where
  "json_ws c = (c = CHR '' '' \<or> c = CHR 0x09 \<or> c = CHR 0x0A \<or> c = CHR 0x0D)"

definition skip_ws :: "string \<Rightarrow> string" where
  "skip_ws s = dropWhile json_ws s"

text \<open>\<^verbatim>\<open>BACKSLASH\<close>, the one-letter escapes.\<close>

definition BACKSLASH :: "char \<Rightarrow> char option" where
  "BACKSLASH esc =
     (if esc = CHR 0x22 then Some (CHR 0x22)
      else if esc = CHR 0x5C then Some (CHR 0x5C)
      else if esc = CHR ''/'' then Some (CHR ''/'')
      else if esc = CHR ''b'' then Some (CHR 0x08)
      else if esc = CHR ''f'' then Some (CHR 0x0C)
      else if esc = CHR ''n'' then Some (CHR 0x0A)
      else if esc = CHR ''r'' then Some (CHR 0x0D)
      else if esc = CHR ''t'' then Some (CHR 0x09)
      else None)"

text \<open>The four hexadecimal digits after \<^verbatim>\<open>\u\<close>, and the text behind them.\<close>

fun decode_uXXXX :: "string \<Rightarrow> (nat \<times> string) option" where
  "decode_uXXXX (a # b # c # d # rest) =
     (case (hex_value a, hex_value b, hex_value c, hex_value d) of
        (Some x, Some y, Some z, Some w) \<Rightarrow> Some (((x * 16 + y) * 16 + z) * 16 + w, rest)
      | _ \<Rightarrow> None)"
| "decode_uXXXX _ = None"

definition unichr :: "nat \<Rightarrow> char" where
  "unichr n = (if n < 256 then char_of n else CHR ''?'')"

definition push_char :: "char \<Rightarrow> (string \<times> string) option \<Rightarrow> (string \<times> string) option" where
  "push_char c r = (case r of None \<Rightarrow> None | Some (str, rest) \<Rightarrow> Some (c # str, rest))"

text \<open>
  \<^verbatim>\<open>scanstring\<close> in strict mode, from the character after the opening quote: the decoded
  string and the text after the closing quote.
\<close>

function scanstring :: "string \<Rightarrow> (string \<times> string) option" where
  "scanstring [] = None"
| "scanstring (c # cs) =
     (if c = CHR 0x22 then Some ([], cs)
      else if c = CHR 0x5C then
        (case cs of
           [] \<Rightarrow> None
         | esc # es \<Rightarrow>
             if esc \<noteq> CHR ''u'' then
               (case BACKSLASH esc of
                  None \<Rightarrow> None
                | Some ch \<Rightarrow> push_char ch (scanstring es))
             else
               (case decode_uXXXX es of
                  None \<Rightarrow> None
                | Some (uni, es') \<Rightarrow>
                    if 0xd800 \<le> uni \<and> uni \<le> 0xdbff \<and> take 2 es' = [CHR 0x5C, CHR ''u''] then
                      (case decode_uXXXX (drop 2 es') of
                         None \<Rightarrow> None
                       | Some (uni2, es'') \<Rightarrow>
                           if 0xdc00 \<le> uni2 \<and> uni2 \<le> 0xdfff then
                             push_char
                               (unichr (0x10000 + ((uni - 0xd800) * 1024 + (uni2 - 0xdc00))))
                               (scanstring es'')
                           else push_char (unichr uni) (scanstring es'))
                    else push_char (unichr uni) (scanstring es')))
      else if (of_char c :: nat) < 0x20 then None
      else push_char c (scanstring cs))"
  by pat_completeness auto
termination
proof -
  have d: "length r < length s" if "decode_uXXXX s = Some (u, r)" for s u r
    using that by (cases s rule: decode_uXXXX.cases) (auto split: option.splits)
  have d2: "length r < length s + 2" if "decode_uXXXX (drop 2 s) = Some (u, r)" for s u r
    using d [OF that] by simp
  show ?thesis
    by (relation "measure length") (auto dest!: d d2)
qed

text \<open>
  \<^verbatim>\<open>NUMBER_RE = (-?(?:0|[1-9]\d*))(\.\d+)?([eE][-+]?\d+)?\<close> matched at the head of the
  text. The optional exponent: its value and the text behind it.
\<close>

definition match_exp :: "string \<Rightarrow> int option \<times> string" where
  "match_exp s =
     (case s of
        [] \<Rightarrow> (None, s)
      | e # r \<Rightarrow>
          if e \<noteq> CHR ''e'' \<and> e \<noteq> CHR ''E'' then (None, s)
          else
            (case r of
               [] \<Rightarrow> (None, s)
             | sg # r' \<Rightarrow>
                 if is_digit sg then
                   (Some (int (digits_value (takeWhile is_digit r))), dropWhile is_digit r)
                 else if (sg = CHR ''+'' \<or> sg = CHR ''-'') \<and> r' \<noteq> [] \<and> is_digit (hd r') then
                   (Some ((if sg = CHR ''-'' then - 1 else 1)
                          * int (digits_value (takeWhile is_digit r'))),
                    dropWhile is_digit r')
                 else (None, s)))"

text \<open>The optional fraction: its digits and the text behind it.\<close>

definition match_frac :: "string \<Rightarrow> string option \<times> string" where
  "match_frac s =
     (case s of
        p # q # r \<Rightarrow>
          if p = CHR ''.'' \<and> is_digit q then
            (Some (takeWhile is_digit (q # r)), dropWhile is_digit (q # r))
          else (None, s)
      | _ \<Rightarrow> (None, s))"

text \<open>
  The whole number: \<^verbatim>\<open>int(integer)\<close> when there is neither fraction nor exponent,
  \<^verbatim>\<open>float(integer + frac + exp)\<close> otherwise.
\<close>

definition match_number :: "string \<Rightarrow> json scan" where
  "match_number s =
     (let neg = (s \<noteq> [] \<and> hd s = CHR ''-'');
          s1 = (if neg then tl s else s);
          sgn = (if neg then - 1 else 1 :: int)
      in case s1 of
           [] \<Rightarrow> Invalid
         | d # ds \<Rightarrow>
             if \<not> is_digit d then Invalid
             else
               (let integer = (if d = CHR ''0'' then [d] else d # takeWhile is_digit ds);
                    s2 = (if d = CHR ''0'' then ds else dropWhile is_digit ds);
                    (frac, s3) = match_frac s2;
                    (exp, s4) = match_exp s3
                in if frac = None \<and> exp = None then
                     (if INT_MAX_STR_DIGITS < length integer then
                        Raises (int_digits_error (length integer))
                      else Scanned (JInt (sgn * int (digits_value integer))) s4)
                   else
                     (let fd = (case frac of None \<Rightarrow> [] | Some ds' \<Rightarrow> ds');
                          ex = (case exp of None \<Rightarrow> 0 | Some x \<Rightarrow> x)
                      in Scanned (JFloat (float_of_literal (sgn * int (digits_value (integer @ fd)))
                                                           (ex - int (length fd)))) s4)))"

text \<open>\<^verbatim>\<open>dict(pairs)\<close>: a repeated key keeps its first position and takes the last value.\<close>

definition dict :: "(string \<times> json) list \<Rightarrow> (string \<times> json) list" where
  "dict pairs = foldl (\<lambda>d (k, v). AList.update k v d) [] pairs"

text \<open>
  \<^verbatim>\<open>_scan_once\<close>, \<^verbatim>\<open>JSONArray\<close> and \<^verbatim>\<open>JSONObject\<close>. The two loops are entered at the
  first value of a non-empty array and behind the opening quote of the first key of a
  non-empty object. The first argument bounds the number of nested calls; \<open>json_loads\<close>
  starts it at twice the length of the text plus one (of two nested calls, one starts
  further into the text than the call before it). The second argument is the number of
  containers around the position: entering one more than \<open>recursion_limit\<close> allows
  raises \<^verbatim>\<open>RecursionError\<close>.
\<close>

fun scan_once :: "nat \<Rightarrow> nat \<Rightarrow> string \<Rightarrow> json scan"
  and JSONArray :: "nat \<Rightarrow> nat \<Rightarrow> string \<Rightarrow> json list scan"
  and JSONObject :: "nat \<Rightarrow> nat \<Rightarrow> string \<Rightarrow> (string \<times> json) list scan"
where
  "scan_once 0 depth s = Invalid"
| "scan_once (Suc n) depth [] = Invalid"
| "scan_once (Suc n) depth (c # cs) =
     (if c = CHR 0x22 then
        (case scanstring cs of None \<Rightarrow> Invalid | Some (str, r) \<Rightarrow> Scanned (JStr str) r)
      else if c = CHR ''{'' then
        (if recursion_limit \<le> depth then Raises RecursionError
         else
           (case skip_ws cs of
              [] \<Rightarrow> Invalid
            | d # r \<Rightarrow>
                if d = CHR ''}'' then Scanned (JDict []) r
                else if d \<noteq> CHR 0x22 then Invalid
                else (case JSONObject n (Suc depth) r of
                        Scanned pairs r' \<Rightarrow> Scanned (JDict (dict pairs)) r'
                      | Invalid \<Rightarrow> Invalid
                      | Raises e \<Rightarrow> Raises e)))
      else if c = CHR ''['' then
        (if recursion_limit \<le> depth then Raises RecursionError
         else
           (case skip_ws cs of
              [] \<Rightarrow> Invalid
            | d # r \<Rightarrow>
                if d = CHR '']'' then Scanned (JList []) r
                else (case JSONArray n (Suc depth) (d # r) of
                        Scanned values r' \<Rightarrow> Scanned (JList values) r'
                      | Invalid \<Rightarrow> Invalid
                      | Raises e \<Rightarrow> Raises e)))
      else if take 4 (c # cs) = ''null'' then Scanned JNull (drop 4 (c # cs))
      else if take 4 (c # cs) = ''true'' then Scanned (JBool True) (drop 4 (c # cs))
      else if take 5 (c # cs) = ''false'' then Scanned (JBool False) (drop 5 (c # cs))
      else
        (case match_number (c # cs) of
           Scanned res r \<Rightarrow> Scanned res r
         | Raises e \<Rightarrow> Raises e
         | Invalid \<Rightarrow>
             if take 3 (c # cs) = ''NaN'' then Scanned (JFloat NaN) (drop 3 (c # cs))
             else if take 8 (c # cs) = ''Infinity'' then
               Scanned (JFloat (Infinity False)) (drop 8 (c # cs))
             else if take 9 (c # cs) = ''-Infinity'' then
               Scanned (JFloat (Infinity True)) (drop 9 (c # cs))
             else Invalid))"
| "JSONArray 0 depth s = Invalid"
| "JSONArray (Suc n) depth s =
     (case scan_once n depth s of
        Invalid \<Rightarrow> Invalid
      | Raises e \<Rightarrow> Raises e
      | Scanned v r \<Rightarrow>
          (case skip_ws r of
             [] \<Rightarrow> Invalid
           | d # r' \<Rightarrow>
               if d = CHR '']'' then Scanned [v] r'
               else if d \<noteq> CHR '','' then Invalid
               else (case JSONArray n depth (skip_ws r') of
                       Scanned values r'' \<Rightarrow> Scanned (v # values) r''
                     | Invalid \<Rightarrow> Invalid
                     | Raises e \<Rightarrow> Raises e)))"
| "JSONObject 0 depth s = Invalid"
| "JSONObject (Suc n) depth s =
     (case scanstring s of
        None \<Rightarrow> Invalid
      | Some (key, r) \<Rightarrow>
          (case skip_ws r of
             [] \<Rightarrow> Invalid
           | d # r' \<Rightarrow>
               if d \<noteq> CHR '':'' then Invalid
               else
                 (case scan_once n depth (skip_ws r') of
                    Invalid \<Rightarrow> Invalid
                  | Raises e \<Rightarrow> Raises e
                  | Scanned v r2 \<Rightarrow>
                      (case skip_ws r2 of
                         [] \<Rightarrow> Invalid
                       | d2 # r3 \<Rightarrow>
                           if d2 = CHR ''}'' then Scanned [(key, v)] r3
                           else if d2 \<noteq> CHR '','' then Invalid
                           else
                             (case skip_ws r3 of
                                [] \<Rightarrow> Invalid
                              | q # r4 \<Rightarrow>
                                  if q \<noteq> CHR 0x22 then Invalid
                                  else (case JSONObject n depth r4 of
                                          Scanned pairs r5 \<Rightarrow> Scanned ((key, v) # pairs) r5
                                        | Invalid \<Rightarrow> Invalid
                                        | Raises e \<Rightarrow> Raises e))))))"

text \<open>
  \<^verbatim>\<open>JSONDecoder.decode\<close>: white space, one value, white space, end of text.
\<close>

definition json_loads :: "string \<Rightarrow> decoded" where
  "json_loads s =
     (case scan_once (2 * length s + 1) 0 (skip_ws s) of
        Invalid \<Rightarrow> DecodeError
      | Raises e \<Rightarrow> Raised e
      | Scanned obj r \<Rightarrow> if skip_ws r = [] then Decoded obj else DecodeError)"

section \<open>The recommendation service\<close>

text \<open>
  Modelled from the spec: the class \<^verbatim>\<open>Artist\<close> of \<^verbatim>\<open>app/models.py\<close>, which is not among
  the sources. The spec gives it an \<^verbatim>\<open>id\<close>, a \<^verbatim>\<open>name\<close> that "may be empty/missing"
  (\<open>None\<close> is the missing name) and \<^verbatim>\<open>genres\<close>, an ordered sequence of labels.
\<close>

record Artist =
  artist_id :: string
  name :: "string option"
  genres :: "string list"

text \<open>
  Modelled from the spec: the track catalog handed to \<^verbatim>\<open>get_track_recommendations\<close> by a
  caller that is not among the sources: a mapping from artist name to albums, in its
  iteration order; an album has a \<^verbatim>\<open>'name'\<close> and \<^verbatim>\<open>'tracks'\<close>, a track a \<^verbatim>\<open>'title'\<close>.
\<close>

record Track =
  title :: string

record Album =
  album_name :: string
  tracks :: "Track list"

type_synonym TrackCatalog = "(string \<times> Album list) list"

text \<open>One entry of \<^verbatim>\<open>messages\<close>, and the keyword arguments of \<^verbatim>\<open>completion\<close>.\<close>

record message =
  role :: string
  content :: string

record request =
  model :: string
  messages :: "message list"
  max_tokens :: int
  temperature :: pyfloat

text \<open>\<^verbatim>\<open>sep.join(xs)\<close>.\<close>

fun join :: "string \<Rightarrow> string list \<Rightarrow> string" where
  "join sep [] = []"
| "join sep [x] = x"
| "join sep (x # y # ys) = x @ sep @ join sep (y # ys)"

text \<open>The truth value of \<^verbatim>\<open>a.name\<close> and its rendering in an f-string.\<close>

fun name_truthy :: "string option \<Rightarrow> bool" where
  "name_truthy None = False"
| "name_truthy (Some n) = (n \<noteq> [])"

fun format_name :: "string option \<Rightarrow> string" where
  "format_name None = ''None''"
| "format_name (Some n) = n"

text \<open>\<^verbatim>\<open>artist_context\<close> of \<^verbatim>\<open>get_recommendations\<close> (lines 27 to 31).\<close>

definition get_recommendations_artist_context :: "Artist list \<Rightarrow> string" where
  "get_recommendations_artist_context artists =
     ''Available artists and their genres:\<newline>'' @
     join ''\<newline>''
       [format_name (name a) @ '' - '' @ join '', '' (genres a). a \<leftarrow> artists, name_truthy (name a)]"

text \<open>\<^verbatim>\<open>artist_context\<close> of \<^verbatim>\<open>get_artist_recommendations\<close> (lines 59 to 63).\<close>

definition get_artist_recommendations_artist_context :: "Artist list \<Rightarrow> string" where
  "get_artist_recommendations_artist_context artists =
     ''Available artists and their genres:\<newline>'' @
     join ''\<newline>''
       [format_name (name a) @ '' - '' @ join '', '' (genres a). a \<leftarrow> artists, name_truthy (name a)]"

text \<open>\<^verbatim>\<open>tracks_context\<close> of \<^verbatim>\<open>get_track_recommendations\<close> (lines 110 to 116).\<close>

definition tracks_context :: "TrackCatalog \<Rightarrow> string" where
  "tracks_context artist_tracks =
     foldl (\<lambda>ctx (artist, albums).
         foldl (\<lambda>ctx album.
             foldl (\<lambda>ctx track. ctx @ ''- '' @ title track @ ''\<newline>'')
               (ctx @ ''Album: '' @ album_name album @ ''\<newline>'')
               (tracks album))
           (ctx @ ''\<newline>'' @ artist @ '':\<newline>'')
           albums)
       ''Available tracks by artist:\<newline>''
       artist_tracks"

text \<open>The three \<^verbatim>\<open>system_prompt\<close> literals, with the line breaks and indentation of the source.\<close>

definition get_recommendations_system_prompt :: string where
  "get_recommendations_system_prompt =
     ''You are a music curator helping to create playlists. \<newline>'' @
     ''            Analyze the available artists and their genres, then select the most appropriate ones for the requested playlist.\<newline>'' @
     ''            Return your response as a JSON object with:\<newline>'' @
     ''            - 'artists': array of 15-20 artist names from the provided list.\<newline>'' @
     ''            Only include artists from the provided list.''"

definition get_artist_recommendations_system_prompt :: string where
  "get_artist_recommendations_system_prompt =
     ''You are a multilingual music curator helping to create playlists. \<newline>'' @
     ''            Your responses must ALWAYS be in English, even when the prompt is in another language.\<newline>'' @
     ''            Analyze the available artists and their genres, then select the most appropriate ones for the requested playlist.\<newline>'' @
     ''            \<newline>'' @
     ''            You must ALWAYS respond with valid JSON only, in this exact format:\<newline>'' @
     ''            {\"artists\": [\"Artist1\", \"Artist2\", \"Artist3\"]}\<newline>'' @
     ''            \<newline>'' @
     ''            Do not add any explanations or other text - just the JSON object.\<newline>'' @
     ''            Select 10-15 artists that match the mood/theme, only from the provided list.''"

definition get_track_recommendations_system_prompt :: string where
  "get_track_recommendations_system_prompt =
     ''You are a multilingual music curator creating a cohesive playlist.\<newline>'' @
     ''            Your responses must ALWAYS be in English and contain ONLY a valid JSON object.\<newline>'' @
     ''            \<newline>'' @
     ''            Based on the available tracks and the playlist theme, select specific songs that:\<newline>'' @
     ''            1. Flow well together\<newline>'' @
     ''            2. Match the requested mood/theme\<newline>'' @
     ''            3. Create a balanced representation of artists\<newline>'' @
     ''            \<newline>'' @
     ''            You must respond with ONLY a JSON object in this exact format:\<newline>'' @
     ''            {\<newline>'' @
     ''                \"tracks\": [\<newline>'' @
     ''                    {\"artist\": \"artist name\", \"title\": \"track title\"}\<newline>'' @
     ''                ]\<newline>'' @
     ''            }\<newline>'' @
     ''            \<newline>'' @
     ''            Select 20-30 tracks total. Do not add any explanations or additional text.''"

text \<open>The user message, \<^verbatim>\<open>f"Context: {context}\n\nCreate a playlist for: {prompt}"\<close>.\<close>

definition get_recommendations_user_message :: "string \<Rightarrow> Artist list \<Rightarrow> string" where
  "get_recommendations_user_message prompt artists =
     ''Context: '' @ get_recommendations_artist_context artists @
     ''\<newline>\<newline>Create a playlist for: '' @ prompt"

definition get_artist_recommendations_user_message :: "string \<Rightarrow> Artist list \<Rightarrow> string" where
  "get_artist_recommendations_user_message prompt artists =
     ''Context: '' @ get_artist_recommendations_artist_context artists @
     ''\<newline>\<newline>Create a playlist for: '' @ prompt"

definition get_track_recommendations_user_message :: "string \<Rightarrow> TrackCatalog \<Rightarrow> string" where
  "get_track_recommendations_user_message prompt artist_tracks =
     ''Context: '' @ tracks_context artist_tracks @
     ''\<newline>\<newline>Create a playlist for: '' @ prompt"

text \<open>The arguments of the \<^verbatim>\<open>completion\<close> call of each function.\<close>

definition get_recommendations_request :: "string \<Rightarrow> Artist list \<Rightarrow> string \<Rightarrow> request" where
  "get_recommendations_request prompt artists model_alias =
     \<lparr>model = resolve model_alias,
      messages =
        [\<lparr>role = ''system'', content = get_recommendations_system_prompt\<rparr>,
         \<lparr>role = ''user'', content = get_recommendations_user_message prompt artists\<rparr>],
      max_tokens = 1024,
      temperature = Decimal 7 (- 1)\<rparr>"

definition get_artist_recommendations_request :: "string \<Rightarrow> Artist list \<Rightarrow> string \<Rightarrow> request" where
  "get_artist_recommendations_request prompt artists model_alias =
     \<lparr>model = resolve model_alias,
      messages =
        [\<lparr>role = ''system'', content = get_artist_recommendations_system_prompt\<rparr>,
         \<lparr>role = ''user'', content = get_artist_recommendations_user_message prompt artists\<rparr>],
      max_tokens = 1024,
      temperature = Decimal 7 (- 1)\<rparr>"

definition get_track_recommendations_request :: "string \<Rightarrow> TrackCatalog \<Rightarrow> string \<Rightarrow> request" where
  "get_track_recommendations_request prompt artist_tracks model_alias =
     \<lparr>model = resolve model_alias,
      messages =
        [\<lparr>role = ''system'', content = get_track_recommendations_system_prompt\<rparr>,
         \<lparr>role = ''user'', content = get_track_recommendations_user_message prompt artist_tracks\<rparr>],
      max_tokens = 2048,
      temperature = Decimal 7 (- 1)\<rparr>"

text \<open>
  What the two selection functions do with the provider's answer (lines 85 to 100 and
  145 to 160): strip it, decode it, read the field with an empty list as default, raise
  \<^verbatim>\<open>ValueError(msg)\<close> when the value is falsy and return it otherwise. The two functions
  differ in the field (\<^verbatim>\<open>'artists'\<close>, \<^verbatim>\<open>'tracks'\<close>) and in the message. The decode error
  is logged and raised again; every other exception, also one of the decoder, passes
  through the outer handler, which logs it and raises it again.
\<close>

definition parse :: "(string \<Rightarrow> decoded) \<Rightarrow> string \<Rightarrow> string \<Rightarrow> string \<Rightarrow> error + json" where
  "parse loads msg rawText expectedField =
     (let content = strip rawText
      in case loads content of
           DecodeError \<Rightarrow> Inl (JSONDecodeError content)
         | Raised e \<Rightarrow> Inl e
         | Decoded result \<Rightarrow>
             (case result of
                JDict d \<Rightarrow>
                  (let selection = dict_get d expectedField (JList [])
                   in if \<not> truthy selection then Inl (ValueError msg) else Inr selection)
              | _ \<Rightarrow> Inl AttributeError))"

text \<open>
  The three operations. \<open>completion\<close> is the provider call reduced to what the service
  reads of it: the text \<^verbatim>\<open>response.choices[0].message.content\<close>, or the exception raised.
\<close>

definition get_recommendations ::
  "(request \<Rightarrow> error + string) \<Rightarrow> (string \<Rightarrow> decoded) \<Rightarrow>
   string \<Rightarrow> Artist list \<Rightarrow> string \<Rightarrow> error + json" where
  "get_recommendations completion loads prompt artists model_alias =
     (case completion (get_recommendations_request prompt artists model_alias) of
        Inl e \<Rightarrow> Inl e
      | Inr text \<Rightarrow>
          (case loads text of
             DecodeError \<Rightarrow> Inl (JSONDecodeError text)
           | Raised e \<Rightarrow> Inl e
           | Decoded result \<Rightarrow>
               (case result of
                  JDict d \<Rightarrow> Inr (dict_get d ''artists'' (JList []))
                | _ \<Rightarrow> Inl AttributeError)))"

definition get_artist_recommendations ::
  "(request \<Rightarrow> error + string) \<Rightarrow> (string \<Rightarrow> decoded) \<Rightarrow>
   string \<Rightarrow> Artist list \<Rightarrow> string \<Rightarrow> error + json" where
  "get_artist_recommendations completion loads prompt artists model_alias =
     (case completion (get_artist_recommendations_request prompt artists model_alias) of
        Inl e \<Rightarrow> Inl e
      | Inr text \<Rightarrow> parse loads ''No artists found in response'' text ''artists'')"

definition get_track_recommendations ::
  "(request \<Rightarrow> error + string) \<Rightarrow> (string \<Rightarrow> decoded) \<Rightarrow>
   string \<Rightarrow> TrackCatalog \<Rightarrow> string \<Rightarrow> error + json" where
  "get_track_recommendations completion loads prompt artist_tracks model_alias =
     (case completion (get_track_recommendations_request prompt artist_tracks model_alias) of
        Inl e \<Rightarrow> Inl e
      | Inr text \<Rightarrow> parse loads ''No tracks found in response'' text ''tracks'')"

section \<open>Notions used in the statements\<close>

text \<open>A provider that answers every request with the same text.\<close>

definition provider_answering :: "string \<Rightarrow> request \<Rightarrow> error + string" where
  "provider_answering text req = Inr text"

text \<open>
  The spec's names for the two failures of the selection functions: a
  \<^verbatim>\<open>MalformedResponse\<close> is the decoder's \<^verbatim>\<open>JSONDecodeError\<close>, an \<^verbatim>\<open>EmptyResult\<close> is the
  \<^verbatim>\<open>ValueError\<close> that the selection function raises for a falsy selection, with the
  message \<open>msg\<close> of that function.
\<close>

fun is_MalformedResponse :: "error + json \<Rightarrow> bool" where
  "is_MalformedResponse (Inl (JSONDecodeError doc)) = True"
| "is_MalformedResponse _ = False"

definition is_EmptyResult :: "string \<Rightarrow> error + json \<Rightarrow> bool" where
  "is_EmptyResult msg r = (r = Inl (ValueError msg))"

text \<open>The lines of a text, as \<^verbatim>\<open>text.split(sep)\<close> with a one-character separator gives them.\<close>

fun split_on :: "char \<Rightarrow> string \<Rightarrow> string list" where
  "split_on sep [] = [[]]"
| "split_on sep (c # cs) =
     (if c = sep then [] # split_on sep cs
      else (case split_on sep cs of [] \<Rightarrow> [[c]] | l # ls \<Rightarrow> (c # l) # ls))"

text \<open>
  The shapes the system prompts ask the model for: a list of strings under \<^verbatim>\<open>"artists"\<close>, a
  list of objects with a string \<^verbatim>\<open>"artist"\<close> and a string \<^verbatim>\<open>"title"\<close> under \<^verbatim>\<open>"tracks"\<close>.
\<close>

fun is_JStr :: "json \<Rightarrow> bool" where
  "is_JStr (JStr s) = True"
| "is_JStr _ = False"

fun artists_shape :: "json \<Rightarrow> bool" where
  "artists_shape (JList xs) = list_all is_JStr xs"
| "artists_shape _ = False"

fun track_shape :: "json \<Rightarrow> bool" where
  "track_shape (JDict d) =
     ((case map_of d ''artist'' of Some (JStr a) \<Rightarrow> True | _ \<Rightarrow> False) \<and>
      (case map_of d ''title'' of Some (JStr t) \<Rightarrow> True | _ \<Rightarrow> False))"
| "track_shape _ = False"

fun tracks_shape :: "json \<Rightarrow> bool" where
  "tracks_shape (JList xs) = list_all track_shape xs"
| "tracks_shape _ = False"

section \<open>Auxiliary facts\<close>

text \<open>The outcome of \<open>parse\<close> by the decoded document.\<close>

lemma parse_cases:
  "parse loads msg raw field =
     (case loads (strip raw) of
        DecodeError \<Rightarrow> Inl (JSONDecodeError (strip raw))
      | Raised e \<Rightarrow> Inl e
      | Decoded (JDict d) \<Rightarrow>
          (case map_of d field of
             None \<Rightarrow> Inl (ValueError msg)
           | Some v \<Rightarrow> if truthy v then Inr v else Inl (ValueError msg))
      | Decoded _ \<Rightarrow> Inl AttributeError)"
  by (simp add: parse_def dict_get_def Let_def split: option.splits json.splits decoded.splits)

lemma split_on_no_sep: "sep \<notin> set l \<Longrightarrow> split_on sep l = [l]"
  by (induction l) auto

lemma split_on_append: "sep \<notin> set l \<Longrightarrow> split_on sep (l @ sep # r) = l # split_on sep r"
  by (induction l) auto

lemma split_on_join:
  "ls \<noteq> [] \<Longrightarrow> \<forall>l\<in>set ls. sep \<notin> set l \<Longrightarrow> split_on sep (join [sep] ls) = ls"
  by (induction "[sep]" ls rule: join.induct) (auto simp: split_on_no_sep split_on_append)

lemma set_join: "set (join sep ls) \<subseteq> set sep \<union> \<Union> (set ` set ls)"
  by (induction sep ls rule: join.induct) auto

section \<open>The claims\<close>

subsection \<open>C1: the failures of the validator step\<close>

text \<open>
  C1, as the code has it. Take a raw response text on which the decoder, when it raises
  an exception that is not its decode error \<open>DecodeError\<close>, raises neither a
  \<^verbatim>\<open>JSONDecodeError\<close> nor a \<^verbatim>\<open>ValueError\<close> with the message of the selection function (the
  library's decoder has no such message). Then \<open>parse\<close> raises the decode error
  (MalformedResponse) if and only
  if the decoder rejects the stripped text as invalid JSON; it raises the \<^verbatim>\<open>ValueError\<close>
  with the function's message (EmptyResult) if and only if the stripped text decodes to
  an object whose expected field is absent or holds a falsy value (an empty list, but also
  an empty string or object, \<^verbatim>\<open>null\<close>, \<^verbatim>\<open>false\<close> or zero); the two never occur together;
  when the text is rejected or decodes to an object, the outcome is a truthy value or one
  of these two failures; and any other exception of the decoder (the \<^verbatim>\<open>ValueError\<close> for an
  integer literal of more than 4300 digits, a \<^verbatim>\<open>RecursionError\<close>) leaves \<open>parse\<close> as it is.
\<close>

theorem parse_failure_kinds:
  assumes "loads (strip raw) \<noteq> Raised (ValueError msg)"
    and "\<forall>doc. loads (strip raw) \<noteq> Raised (JSONDecodeError doc)"
  shows
  "(is_MalformedResponse (parse loads msg raw field) \<longleftrightarrow> loads (strip raw) = DecodeError)
 \<and> (is_EmptyResult msg (parse loads msg raw field) \<longleftrightarrow>
       (\<exists>d. loads (strip raw) = Decoded (JDict d) \<and>
            (map_of d field = None \<or> (\<exists>v. map_of d field = Some v \<and> \<not> truthy v))))
 \<and> \<not> (is_MalformedResponse (parse loads msg raw field)
        \<and> is_EmptyResult msg (parse loads msg raw field))
 \<and> ((loads (strip raw) = DecodeError \<or> (\<exists>d. loads (strip raw) = Decoded (JDict d))) \<longrightarrow>
       (\<exists>v. parse loads msg raw field = Inr v \<and> truthy v)
       \<or> is_MalformedResponse (parse loads msg raw field)
       \<or> is_EmptyResult msg (parse loads msg raw field))
 \<and> (\<forall>e. loads (strip raw) = Raised e \<longrightarrow> parse loads msg raw field = Inl e)"
proof -
  show ?thesis
  proof (cases "loads (strip raw)")
    case (Decoded result)
    then show ?thesis
      by (cases result) (auto simp add: parse_cases is_EmptyResult_def split: option.splits)
  next
    case DecodeError
    then show ?thesis
      by (simp add: parse_cases is_EmptyResult_def)
  next
    case (Raised e)
    with assms show ?thesis
      by (cases e) (auto simp add: parse_cases is_EmptyResult_def)
  qed
qed

text \<open>
  The theorem at the answers \<^verbatim>\<open>{"artists": []}\<close> and \<^verbatim>\<open>not json\<close> of the artist selection.
\<close>

theorem parse_failure_kinds_witness:
  "json_loads (strip ''{\"artists\": []}'') = Decoded (JDict [(''artists'', JList [])])
 \<and> is_EmptyResult ''No artists found in response''
     (parse json_loads ''No artists found in response'' ''{\"artists\": []}'' ''artists'')
 \<and> json_loads (strip ''not json'') = DecodeError
 \<and> is_MalformedResponse
     (parse json_loads ''No artists found in response'' ''not json'' ''artists'')"
proof -
  have a: "json_loads (strip ''{\"artists\": []}'') = Decoded (JDict [(''artists'', JList [])])"
    by code_simp
  have b: "json_loads (strip ''not json'') = DecodeError"
    by code_simp
  show ?thesis
    using parse_failure_kinds
            [of json_loads "''{\"artists\": []}''" "''No artists found in response''" "''artists''"]
          parse_failure_kinds
            [of json_loads "''not json''" "''No artists found in response''" "''artists''"]
          a b
    by simp
qed

text \<open>
  C1 as stated fails twice. The answer \<^verbatim>\<open>[]\<close> is valid JSON, and the artist selection
  ends in an \<^verbatim>\<open>AttributeError\<close>: neither a selection nor one of the two failures. The
  answer \<^verbatim>\<open>{"artists": 0}\<close> has the field, with a value that is no sequence, and the
  selection raises the \<^verbatim>\<open>ValueError\<close> of an empty result.
\<close>

theorem parse_failure_kinds_counterexample:
  "parse json_loads ''No artists found in response'' ''[]'' ''artists'' = Inl AttributeError
 \<and> json_loads (strip ''{\"artists\": 0}'') = Decoded (JDict [(''artists'', JInt 0)])
 \<and> parse json_loads ''No artists found in response'' ''{\"artists\": 0}'' ''artists''
     = Inl (ValueError ''No artists found in response'')"
  by code_simp

subsection \<open>C2: no empty selection\<close>

text \<open>
  C2, as the code has it. The two selection functions of the two-stage flow never return
  an empty selection: a value returned by \<open>get_artist_recommendations\<close> or
  \<open>get_track_recommendations\<close> is truthy, in particular not the empty list, and when the
  answer decodes to an object whose field is absent or the empty list, they raise the
  \<^verbatim>\<open>ValueError\<close>. The single-stage \<open>get_recommendations\<close> returns the value of the field,
  by default the empty list, without testing it.
\<close>

theorem two_stage_selection_never_empty:
  "(get_artist_recommendations completion loads prompt artists model_alias = Inr v
      \<longrightarrow> truthy v \<and> v \<noteq> JList [])
 \<and> (get_track_recommendations completion loads prompt artist_tracks model_alias = Inr w
      \<longrightarrow> truthy w \<and> w \<noteq> JList [])
 \<and> (completion (get_artist_recommendations_request prompt artists model_alias) = Inr text
      \<and> loads (strip text) = Decoded (JDict d)
      \<and> (map_of d ''artists'' = None \<or> map_of d ''artists'' = Some (JList []))
      \<longrightarrow> get_artist_recommendations completion loads prompt artists model_alias
            = Inl (ValueError ''No artists found in response''))
 \<and> (completion (get_track_recommendations_request prompt artist_tracks model_alias) = Inr text'
      \<and> loads (strip text') = Decoded (JDict d')
      \<and> (map_of d' ''tracks'' = None \<or> map_of d' ''tracks'' = Some (JList []))
      \<longrightarrow> get_track_recommendations completion loads prompt artist_tracks model_alias
            = Inl (ValueError ''No tracks found in response''))
 \<and> (completion (get_recommendations_request prompt artists model_alias) = Inr text''
      \<and> loads text'' = Decoded (JDict d'')
      \<longrightarrow> get_recommendations completion loads prompt artists model_alias
            = Inr (dict_get d'' ''artists'' (JList [])))"
  by (auto simp add: get_artist_recommendations_def get_track_recommendations_def
      get_recommendations_def parse_cases
      split: sum.splits option.splits json.splits if_splits decoded.splits)

text \<open>
  The theorem on one artist and a provider answering \<^verbatim>\<open>{"artists": ["Artist 1"]}\<close>, then
  \<^verbatim>\<open>{"artists": []}\<close>.
\<close>

theorem two_stage_selection_never_empty_witness:
  "get_artist_recommendations (provider_answering ''{\"artists\": [\"Artist 1\"]}'') json_loads
      ''rock playlist'' [\<lparr>artist_id = ''1'', name = Some ''Artist 1'', genres = [''Rock'']\<rparr>]
      ''gpt-4''
     = Inr (JList [JStr ''Artist 1''])
 \<and> truthy (JList [JStr ''Artist 1''])
 \<and> get_artist_recommendations (provider_answering ''{\"artists\": []}'') json_loads
      ''rock playlist'' [\<lparr>artist_id = ''1'', name = Some ''Artist 1'', genres = [''Rock'']\<rparr>]
      ''gpt-4''
     = Inl (ValueError ''No artists found in response'')"
proof -
  let ?as = "[\<lparr>artist_id = ''1'', name = Some ''Artist 1'', genres = [''Rock'']\<rparr>]"
  have a: "get_artist_recommendations (provider_answering ''{\"artists\": [\"Artist 1\"]}'')
             json_loads ''rock playlist'' ?as ''gpt-4'' = Inr (JList [JStr ''Artist 1''])"
    by code_simp
  have b: "provider_answering ''{\"artists\": []}''
             (get_artist_recommendations_request ''rock playlist'' ?as ''gpt-4'')
           = Inr ''{\"artists\": []}''"
    by (simp add: provider_answering_def)
  have c: "json_loads (strip ''{\"artists\": []}'') = Decoded (JDict [(''artists'', JList [])])"
    by code_simp
  show ?thesis
    using two_stage_selection_never_empty
            [of "provider_answering ''{\"artists\": [\"Artist 1\"]}''" json_loads
                "''rock playlist''" ?as "''gpt-4''" "JList [JStr ''Artist 1'']"]
          two_stage_selection_never_empty
            [of "provider_answering ''{\"artists\": []}''" json_loads "''rock playlist''" ?as
                "''gpt-4''" _ _ _ "''{\"artists\": []}''" "[(''artists'', JList [])]"]
          a b c
    by simp
qed

text \<open>
  C2 as stated fails for the third operation: \<open>get_recommendations\<close> returns the value of
  the field without testing it, so the answer \<^verbatim>\<open>{"artists": []}\<close> makes it return the
  empty list.
\<close>

theorem get_recommendations_empty_counterexample:
  "get_recommendations (provider_answering ''{\"artists\": []}'') json_loads ''rock playlist''
     [\<lparr>artist_id = ''1'', name = Some ''Artist 1'', genres = [''Rock'']\<rparr>] ''gpt-4''
   = Inr (JList [])"
  by code_simp

subsection \<open>C3: model resolution\<close>

text \<open>
  C3. \<open>resolve\<close> is a function of the alias and the fixed table: an alias of the table
  resolves to its entry, \<^verbatim>\<open>gpt-4\<close> to itself and \<^verbatim>\<open>claude\<close> to an identifier that starts with
  the provider \<^verbatim>\<open>anthropic/\<close> and differs from \<^verbatim>\<open>claude\<close>; an alias that is not in the table
  resolves to itself. Being a total function it never fails.
\<close>

theorem resolve_table_or_passthrough:
  "(map_of MODEL_MAPPING alias = Some ident \<longrightarrow> resolve alias = ident)
 \<and> (map_of MODEL_MAPPING alias = None \<longrightarrow> resolve alias = alias)
 \<and> resolve ''gpt-4'' = ''gpt-4''
 \<and> resolve ''claude'' = ''anthropic/claude-3-5-sonnet-latest''
 \<and> prefix ''anthropic/'' (resolve ''claude'')
 \<and> resolve ''claude'' \<noteq> ''claude''"
  by (simp add: resolve_def MODEL_MAPPING_def)

text \<open>The theorem at the unknown alias \<^verbatim>\<open>custom-model-x\<close> and at the alias \<^verbatim>\<open>claude\<close>.\<close>

theorem resolve_table_or_passthrough_witness:
  "map_of MODEL_MAPPING ''custom-model-x'' = None
 \<and> resolve ''custom-model-x'' = ''custom-model-x''
 \<and> map_of MODEL_MAPPING ''claude'' = Some ''anthropic/claude-3-5-sonnet-latest''
 \<and> resolve ''claude'' = ''anthropic/claude-3-5-sonnet-latest''"
  using resolve_table_or_passthrough [of "''custom-model-x''"]
        resolve_table_or_passthrough [of "''claude''" "''anthropic/claude-3-5-sonnet-latest''"]
  by (simp add: MODEL_MAPPING_def)

subsection \<open>C4: the lines of the artist context\<close>

text \<open>
  C4, as the code has it. For every catalog with at least one artist of non-empty name, in
  which no name and no genre of such an artist contains a line break, the context block of
  the artist selection consists of the heading line followed by exactly one line per artist
  of non-empty name, formatted as the name, \<^verbatim>\<open>" - "\<close> and the genres joined by \<^verbatim>\<open>", "\<close>, in
  catalog order; an artist whose name is empty or missing has no line.
\<close>

theorem artist_context_lines:
  assumes "\<exists>a\<in>set artists. name_truthy (name a)"
    and "\<forall>a\<in>set artists. name_truthy (name a) \<longrightarrow>
           CHR 0x0A \<notin> set (format_name (name a)) \<and> (\<forall>g\<in>set (genres a). CHR 0x0A \<notin> set g)"
  shows "split_on (CHR 0x0A) (get_artist_recommendations_artist_context artists) =
           ''Available artists and their genres:'' #
           map (\<lambda>a. format_name (name a) @ '' - '' @ join '', '' (genres a))
               (filter (\<lambda>a. name_truthy (name a)) artists)"
proof -
  let ?ls = "[format_name (name a) @ '' - '' @ join '', '' (genres a).
               a \<leftarrow> artists, name_truthy (name a)]"
  have eq: "?ls = map (\<lambda>a. format_name (name a) @ '' - '' @ join '', '' (genres a))
               (filter (\<lambda>a. name_truthy (name a)) artists)"
    by (induction artists) auto
  have ne: "?ls \<noteq> []"
    using assms(1) unfolding eq by (auto simp: filter_empty_conv)
  have nl: "\<forall>l\<in>set ?ls. CHR 0x0A \<notin> set l"
  proof
    fix l assume "l \<in> set ?ls"
    then obtain a where a: "a \<in> set artists" "name_truthy (name a)"
      and l: "l = format_name (name a) @ '' - '' @ join '', '' (genres a)"
      by auto
    have "CHR 0x0A \<notin> set (join '', '' (genres a))"
      using set_join [of "'', ''" "genres a"] assms(2) a by auto
    with assms(2) a l show "CHR 0x0A \<notin> set l" by auto
  qed
  have "get_artist_recommendations_artist_context artists =
          ''Available artists and their genres:'' @ CHR 0x0A # join [CHR 0x0A] ?ls"
    by (simp add: get_artist_recommendations_artist_context_def)
  then have "split_on (CHR 0x0A) (get_artist_recommendations_artist_context artists) =
          ''Available artists and their genres:'' # split_on (CHR 0x0A) (join [CHR 0x0A] ?ls)"
    by (simp only: split_on_append) (simp add: split_on_append)
  with split_on_join [OF ne nl] eq show ?thesis by simp
qed

text \<open>
  The theorem on a catalog of four artists, the second with an empty name and the third
  with none.
\<close>

theorem artist_context_lines_witness:
  "split_on (CHR 0x0A) (get_artist_recommendations_artist_context
     [\<lparr>artist_id = ''1'', name = Some ''Artist 1'', genres = [''Rock'']\<rparr>,
      \<lparr>artist_id = ''2'', name = Some [], genres = [''Pop'']\<rparr>,
      \<lparr>artist_id = ''3'', name = None, genres = []\<rparr>,
      \<lparr>artist_id = ''4'', name = Some ''Artist 4'', genres = [''Pop'', ''Jazz'']\<rparr>]) =
   [''Available artists and their genres:'', ''Artist 1 - Rock'', ''Artist 4 - Pop, Jazz'']"
  using artist_context_lines
          [of "[\<lparr>artist_id = ''1'', name = Some ''Artist 1'', genres = [''Rock'']\<rparr>,
                \<lparr>artist_id = ''2'', name = Some [], genres = [''Pop'']\<rparr>,
                \<lparr>artist_id = ''3'', name = None, genres = []\<rparr>,
                \<lparr>artist_id = ''4'', name = Some ''Artist 4'', genres = [''Pop'', ''Jazz'']\<rparr>]"]
  by simp

text \<open>
  C4 as stated fails on a name with a line break in it: the one artist of the catalog
  takes two lines of the block, and neither is the artist's name followed by the genres.
\<close>

theorem artist_context_lines_counterexample:
  "split_on (CHR 0x0A) (get_artist_recommendations_artist_context
     [\<lparr>artist_id = ''1'', name = Some ''A\<newline>B'', genres = [''Rock'']\<rparr>]) =
   [''Available artists and their genres:'', ''A'', ''B - Rock'']"
  by code_simp

subsection \<open>C5: the selection is returned as it was decoded\<close>

text \<open>
  C5. When the answer decodes to an object whose expected field holds a non-empty list,
  \<open>parse\<close> returns that list itself: same elements, same order, same repetitions. In
  particular the text \<^verbatim>\<open>{"artists": ["A","B"]}\<close> parsed for the field \<^verbatim>\<open>artists\<close> gives
  \<^verbatim>\<open>["A","B"]\<close> in that order.
\<close>

theorem parse_returns_sequence_as_is:
  "(loads (strip raw) = Decoded (JDict d) \<and> map_of d field = Some (JList xs) \<and> xs \<noteq> []
      \<longrightarrow> parse loads msg raw field = Inr (JList xs))
 \<and> parse json_loads msg ''{\"artists\": [\"A\",\"B\"]}'' ''artists''
     = Inr (JList [JStr ''A'', JStr ''B''])"
proof -
  have "json_loads (strip ''{\"artists\": [\"A\",\"B\"]}'')
          = Decoded (JDict [(''artists'', JList [JStr ''A'', JStr ''B''])])"
    by code_simp
  then show ?thesis by (simp add: parse_cases)
qed

text \<open>
  The theorem at an answer with surrounding blanks, a repeated name and names out of
  alphabetical order.
\<close>

theorem parse_returns_sequence_as_is_witness:
  "parse json_loads ''No artists found in response''
     ''  {\"artists\": [\"B\", \"A\", \"B\"]} '' ''artists''
   = Inr (JList [JStr ''B'', JStr ''A'', JStr ''B''])"
proof -
  have "json_loads (strip ''  {\"artists\": [\"B\", \"A\", \"B\"]} '')
          = Decoded (JDict [(''artists'', JList [JStr ''B'', JStr ''A'', JStr ''B''])])"
    by code_simp
  with parse_returns_sequence_as_is
         [of json_loads "''  {\"artists\": [\"B\", \"A\", \"B\"]} ''"
             "[(''artists'', JList [JStr ''B'', JStr ''A'', JStr ''B''])]"
             "''artists''" "[JStr ''B'', JStr ''A'', JStr ''B'']"
             "''No artists found in response''"]
  show ?thesis by simp
qed

subsection \<open>C6: the decode failure\<close>

text \<open>
  C6, as the code has it. For every raw text whose stripped form is not valid JSON,
  \<open>parse\<close> raises the decode error, which carries the stripped text: the raw text itself
  whenever it has no surrounding white space, as for \<^verbatim>\<open>not json\<close>. Nothing is recovered
  from such a text: no selection is returned.
\<close>

theorem parse_malformed_carries_stripped_text:
  "(loads (strip raw) = DecodeError \<longrightarrow>
      parse loads msg raw field = Inl (JSONDecodeError (strip raw))
      \<and> (strip raw = raw \<longrightarrow> parse loads msg raw field = Inl (JSONDecodeError raw))
      \<and> (\<forall>v. parse loads msg raw field \<noteq> Inr v))
 \<and> parse json_loads msg ''not json'' field = Inl (JSONDecodeError ''not json'')"
proof -
  have "json_loads (strip ''not json'') = DecodeError" "strip ''not json'' = ''not json''"
    by code_simp+
  then show ?thesis by (auto simp add: parse_cases)
qed

text \<open>
  The theorem at an answer that wraps a list of artists in prose: the failure carries the
  whole answer, and the list inside it is not extracted.
\<close>

theorem parse_malformed_carries_stripped_text_witness:
  "json_loads (strip ''Sure! Here are the artists: [\"A\"]'') = DecodeError
 \<and> parse json_loads ''No artists found in response''
      ''Sure! Here are the artists: [\"A\"]'' ''artists''
     = Inl (JSONDecodeError ''Sure! Here are the artists: [\"A\"]'')"
proof -
  have a: "json_loads (strip ''Sure! Here are the artists: [\"A\"]'') = DecodeError"
    and b: "strip ''Sure! Here are the artists: [\"A\"]''
              = ''Sure! Here are the artists: [\"A\"]''"
    by code_simp+
  with parse_malformed_carries_stripped_text
         [of json_loads "''Sure! Here are the artists: [\"A\"]''"
             "''No artists found in response''" "''artists''"]
  show ?thesis by simp
qed

text \<open>
  C6 as stated fails on a raw text with white space around it: the failure for the raw
  text \<^verbatim>\<open>" not json"\<close> carries \<^verbatim>\<open>"not json"\<close>, not the raw text.
\<close>

theorem parse_malformed_counterexample:
  "parse json_loads ''No artists found in response'' '' not json'' ''artists''
     = Inl (JSONDecodeError ''not json'')
 \<and> parse json_loads ''No artists found in response'' '' not json'' ''artists''
     \<noteq> Inl (JSONDecodeError '' not json'')"
  by code_simp

subsection \<open>C7: what the validator checks\<close>

text \<open>
  C7, as the code has it. For every answer that decodes to an object with the expected
  field, the validator tests the truth value of the field's value and nothing else: a
  truthy value is returned as it is, whatever its shape, and a falsy one raises the
  \<^verbatim>\<open>ValueError\<close>. A returned value has the advertised shape exactly when the model gave it
  that shape.
\<close>

theorem parse_checks_truth_value_only:
  "loads (strip raw) = Decoded (JDict d) \<and> map_of d field = Some v \<longrightarrow>
     parse loads msg raw field = (if truthy v then Inr v else Inl (ValueError msg))"
  by (simp add: parse_cases)

text \<open>
  The theorem at a track answer whose field is a string: the string is returned, and it
  is no list of tracks.
\<close>

theorem parse_checks_truth_value_only_witness:
  "parse json_loads ''No tracks found in response'' ''{\"tracks\": \"all of them\"}'' ''tracks''
     = Inr (JStr ''all of them'')
 \<and> \<not> tracks_shape (JStr ''all of them'')"
proof -
  have "json_loads (strip ''{\"tracks\": \"all of them\"}'')
          = Decoded (JDict [(''tracks'', JStr ''all of them'')])"
    by code_simp
  with parse_checks_truth_value_only
         [of json_loads "''{\"tracks\": \"all of them\"}''"
             "[(''tracks'', JStr ''all of them'')]" "''tracks''"
             "JStr ''all of them''" "''No tracks found in response''"]
  show ?thesis by simp
qed

text \<open>
  C7 as stated fails: the artist selection returns a list that holds a number and an
  object, which is no list of strings.
\<close>

theorem parse_shape_counterexample:
  "parse json_loads ''No artists found in response''
     ''{\"artists\": [1, {\"name\": null}]}'' ''artists''
     = Inr (JList [JInt 1, JDict [(''name'', JNull)]])
 \<and> \<not> artists_shape (JList [JInt 1, JDict [(''name'', JNull)]])"
  by code_simp

subsection \<open>C8: the completion requests\<close>

text \<open>
  C8. For every theme, catalog and model alias, the request of each of the three
  operations has exactly two messages, the system instruction and a user message made of
  \<^verbatim>\<open>"Context: "\<close>, the context block, \<^verbatim>\<open>"\n\nCreate a playlist for: "\<close> and the theme; its
  temperature is 0.7; and the maximum output length of the track selection (2048) is
  larger than that of either artist selection (1024).
\<close>

theorem completion_requests:
  "messages (get_recommendations_request theme artists model_alias) =
     [\<lparr>role = ''system'', content = get_recommendations_system_prompt\<rparr>,
      \<lparr>role = ''user'', content = ''Context: '' @ get_recommendations_artist_context artists
          @ ''\<newline>\<newline>Create a playlist for: '' @ theme\<rparr>]
 \<and> messages (get_artist_recommendations_request theme artists model_alias) =
     [\<lparr>role = ''system'', content = get_artist_recommendations_system_prompt\<rparr>,
      \<lparr>role = ''user'', content = ''Context: '' @ get_artist_recommendations_artist_context artists
          @ ''\<newline>\<newline>Create a playlist for: '' @ theme\<rparr>]
 \<and> messages (get_track_recommendations_request theme artist_tracks model_alias) =
     [\<lparr>role = ''system'', content = get_track_recommendations_system_prompt\<rparr>,
      \<lparr>role = ''user'', content = ''Context: '' @ tracks_context artist_tracks
          @ ''\<newline>\<newline>Create a playlist for: '' @ theme\<rparr>]
 \<and> temperature (get_recommendations_request theme artists model_alias) = Decimal 7 (- 1)
 \<and> temperature (get_artist_recommendations_request theme artists model_alias) = Decimal 7 (- 1)
 \<and> temperature (get_track_recommendations_request theme artist_tracks model_alias)
     = Decimal 7 (- 1)
 \<and> max_tokens (get_artist_recommendations_request theme artists model_alias)
     < max_tokens (get_track_recommendations_request theme artist_tracks model_alias)
 \<and> max_tokens (get_recommendations_request theme artists model_alias)
     < max_tokens (get_track_recommendations_request theme artist_tracks model_alias)"
  by (simp add: get_recommendations_request_def get_artist_recommendations_request_def
      get_track_recommendations_request_def get_recommendations_user_message_def
      get_artist_recommendations_user_message_def get_track_recommendations_user_message_def)

text \<open>
  The theorem on the catalog of the tests, the theme \<^verbatim>\<open>rock playlist\<close> and the alias
  \<^verbatim>\<open>gpt-4\<close>: the user message of the artist selection.
\<close>

theorem completion_requests_witness:
  "map content (tl (messages (get_artist_recommendations_request ''rock playlist''
     [\<lparr>artist_id = ''1'', name = Some ''Artist 1'', genres = [''Rock'']\<rparr>,
      \<lparr>artist_id = ''2'', name = Some ''Artist 2'', genres = [''Pop'']\<rparr>] ''gpt-4''))) =
   [''Context: Available artists and their genres:\<newline>Artist 1 - Rock\<newline>Artist 2 - Pop\<newline>\<newline>Create a playlist for: rock playlist'']"
  using completion_requests
          [of "''rock playlist''"
              "[\<lparr>artist_id = ''1'', name = Some ''Artist 1'', genres = [''Rock'']\<rparr>,
                \<lparr>artist_id = ''2'', name = Some ''Artist 2'', genres = [''Pop'']\<rparr>]" "''gpt-4''"]
  by (simp add: get_artist_recommendations_artist_context_def)

subsection \<open>C9: the cardinalities asked for\<close>

text \<open>
  C9. The system instruction of the two-stage artist selection asks for 10-15 artists from
  the provided list, that of the single-stage variant for 15-20 artist names from the
  provided list, and that of the track selection for 20-30 tracks: each instruction
  contains the sentence.
\<close>

theorem system_prompt_cardinalities:
  "sublist ''Select 10-15 artists that match the mood/theme, only from the provided list.''
     get_artist_recommendations_system_prompt
 \<and> sublist ''array of 15-20 artist names from the provided list.''
     get_recommendations_system_prompt
 \<and> sublist ''Select 20-30 tracks total.'' get_track_recommendations_system_prompt"
  by code_simp

subsection \<open>C10: the two artist contexts\<close>

text \<open>
  C10. For every artist list and theme, the single-stage operation and the two-stage
  artist selection build the same context block and the same user message, character for
  character, and send that user message in their requests.
\<close>

theorem artist_context_same_in_both_paths:
  "get_recommendations_artist_context artists = get_artist_recommendations_artist_context artists
 \<and> get_recommendations_user_message theme artists
     = get_artist_recommendations_user_message theme artists
 \<and> map content (tl (messages (get_recommendations_request theme artists model_alias)))
     = map content (tl (messages (get_artist_recommendations_request theme artists model_alias)))"
  by (simp add: get_recommendations_artist_context_def
      get_artist_recommendations_artist_context_def get_recommendations_user_message_def
      get_artist_recommendations_user_message_def get_recommendations_request_def
      get_artist_recommendations_request_def)

end
